theory Spec2Isabelle
  imports Main "HOL-Library.Option_ord"
begin

section \<open>JavaScript values and errors\<close>

text \<open>
  The fields whose JavaScript type decides a branch are kept as JavaScript values.
  \<open>truthy\<close> is the test that \<open>if (x)\<close>, \<open>!x\<close>, \<open>x || y\<close> and \<open>x && y\<close> apply:
  \<open>undefined\<close>, \<open>null\<close>, \<open>false\<close>, \<open>0\<close> and the empty string are falsy, every array is
  truthy (also the empty one). Numbers are integers here; the code only tests them and passes
  them on.
\<close>

datatype jsval =
    JUndefined
  | JNull
  | JBool bool
  | JNum int
  | JStr string
  | JArr "jsval list"

fun truthy :: "jsval \<Rightarrow> bool" where
  "truthy JUndefined = False"
| "truthy JNull = False"
| "truthy (JBool b) = b"
| "truthy (JNum n) = (n \<noteq> 0)"
| "truthy (JStr s) = (s \<noteq> [])"
| "truthy (JArr xs) = True"

text \<open>The \<open>error.code\<close> values that \<open>makeRequestWithRetry\<close> tells apart.\<close>

datatype error_code =
    ECONNRESET
  | ETIMEDOUT
  | ERR_NETWORK
  | SELF_SIGNED_CERT_IN_CHAIN
  | OtherCode string

text \<open>
  What the code can throw: a \<open>TypeError\<close> for a property read on \<open>null\<close>, the error of a
  failed HTTP request, the \<open>Error\<close> that \<open>makeRequestWithRetry\<close> throws after its last
  attempt (with the URL and the number of attempts), and the validation error of the data store.
\<close>

datatype error =
    TypeError
  | RequestError error_code
  | RetriesExhausted string nat
  | ValidationError

section \<open>Documents and collections\<close>

text \<open>
  \<open>models/Movie.js\<close> is not among the sources; a Movie document has the fields that
  \<open>addShow\<close> writes into \<open>MovieDetails\<close>.
\<close>

record Movie =
  movie_id :: string
  title :: string
  overview :: string
  poster_path :: string
  backdrop_path :: string
  genres :: "string list"
  casts :: "string list"
  release_date :: string
  original_language :: string
  tagline :: string
  vote_average :: int
  runtime :: int

text \<open>
  \<open>models/Show.js\<close> is not among the sources; a Show document has the fields that
  \<open>addShow\<close> writes. \<open>occupiedSeats\<close> is a JavaScript object used as a dictionary from seat
  label to holder id.
\<close>

record Show =
  show_id :: string
  movie :: string
  showDateTime :: int
  showPrice :: int
  occupiedSeats :: "string \<rightharpoonup> string"

text \<open>
  \<open>bookingSchema\<close>: \<open>user\<close>, \<open>show\<close> (here \<open>showRef\<close>), \<open>amount\<close>, \<open>bookedSeats\<close>,
  \<open>isPaid\<close>, \<open>paymentLink\<close>. The schema declares no \<open>createdAt\<close> path itself; Mongoose adds
  one only when the schema's options ask for timestamps, so the field is optional here.
  \<open>isPaid\<close> is a JavaScript value: the handler tests it with \<open>!\<close>.
\<close>

record Booking =
  booking_id :: string
  user :: string
  showRef :: string
  amount :: int
  bookedSeats :: "string list"
  isPaid :: jsval
  paymentLink :: "string option"
  createdAt :: "int option"

text \<open>Writes to the data store, in the order in which the code awaits them.\<close>

datatype db_write =
    MovieCreated string
  | ShowsInserted "string list"
  | ShowSaved string
  | BookingCreated string
  | BookingDeleted string

text \<open>Events handed to \<open>inngest.send\<close>.\<close>

datatype event = ShowAdded string

text \<open>
  The three collections hold their documents in the order of insertion. \<open>_id\<close> is unique in
  a MongoDB collection; the operations below are written so that no theorem needs that fact.
  \<open>idCount\<close> counts the ids generated so far, \<open>writes\<close> is the journal of writes and
  \<open>events\<close> the events sent.
\<close>

record state =
  movieDocs :: "Movie list"
  showDocs :: "Show list"
  bookingDocs :: "Booking list"
  idCount :: nat
  writes :: "db_write list"
  events :: "event list"

definition Movie_findById :: "string \<Rightarrow> state \<Rightarrow> Movie option" where
  "Movie_findById i st = find (\<lambda>m. movie_id m = i) (movieDocs st)"

definition Show_findById :: "string \<Rightarrow> state \<Rightarrow> Show option" where
  "Show_findById i st = find (\<lambda>s. show_id s = i) (showDocs st)"

text \<open>The Booking document as the collection stores it.\<close>

definition Booking_stored :: "string \<Rightarrow> state \<Rightarrow> Booking option" where
  "Booking_stored i st = find (\<lambda>b. booking_id b = i) (bookingDocs st)"

text \<open>
  \<open>bookingSchema\<close> declares \<open>isPaid: {type: Array, default: false}\<close> and is built with the
  options \<open>{timestamp: true}\<close>.

  Mongoose (a library, not part of the repository) keeps an \<open>Array\<close> path as an array, when a
  document is created and when it is read: an array stays, a value that is not an array is
  wrapped into a one-element array, \<open>null\<close> stays \<open>null\<close>, and a value that is absent or
  \<open>undefined\<close> is replaced by the default, wrapped in the same way (\<open>[].concat(false)\<close>).
\<close>

definition bookingSchema_isPaid_default :: jsval where
  "bookingSchema_isPaid_default = JBool False"

definition castArray :: "jsval \<Rightarrow> jsval" where
  "castArray v =
     (case v of
        JUndefined \<Rightarrow> JArr [bookingSchema_isPaid_default]
      | JNull \<Rightarrow> JNull
      | JArr xs \<Rightarrow> JArr xs
      | _ \<Rightarrow> JArr [v])"

definition bookingSchema_options :: "(string \<times> bool) list" where
  "bookingSchema_options = [(''timestamp'', True)]"

text \<open>
  Mongoose adds \<open>createdAt\<close> and \<open>updatedAt\<close> when the option named \<open>timestamps\<close> is set;
  an option of another name is ignored.
\<close>

definition schema_timestamps :: "(string \<times> bool) list \<Rightarrow> bool" where
  "schema_timestamps opts = (map_of opts ''timestamps'' = Some True)"

text \<open>
  A Booking document as the model \<open>Booking\<close> hands it to the code: the stored document read
  through the schema. In a stored document \<open>JUndefined\<close> stands for an absent \<open>isPaid\<close>.
\<close>

definition hydrate :: "Booking \<Rightarrow> Booking" where
  "hydrate b = b\<lparr>isPaid := castArray (isPaid b)\<rparr>"

definition Booking_findById :: "string \<Rightarrow> state \<Rightarrow> Booking option" where
  "Booking_findById i st = map_option hydrate (Booking_stored i st)"

text \<open>
  \<open>show.markModified("occupiedSeats"); await show.save()\<close>: the stored document with the
  id of \<open>sh\<close> gets the \<open>occupiedSeats\<close> of \<open>sh\<close>.
\<close>

definition Show_save :: "Show \<Rightarrow> state \<Rightarrow> state" where
  "Show_save sh st =
     st\<lparr>showDocs :=
          map (\<lambda>d. if show_id d = show_id sh then d\<lparr>occupiedSeats := occupiedSeats sh\<rparr> else d)
            (showDocs st),
        writes := writes st @ [ShowSaved (show_id sh)]\<rparr>"

definition Booking_findByIdAndDelete :: "string \<Rightarrow> state \<Rightarrow> state" where
  "Booking_findByIdAndDelete i st =
     st\<lparr>bookingDocs := filter (\<lambda>b. booking_id b \<noteq> i) (bookingDocs st),
        writes := writes st @ [BookingDeleted i]\<rparr>"

section \<open>The deferred release handler\<close>

text \<open>
  \<open>booking.bookedSeats.forEach((seat) => { delete show.occupiedSeats[seat]; })\<close>, on the
  dictionary alone. \<open>delete\<close> of a key that is absent does nothing and does not throw.
\<close>

definition releaseSeats :: "string list \<Rightarrow> (string \<rightharpoonup> string) \<Rightarrow> (string \<rightharpoonup> string)" where
  "releaseSeats seats occ = foldl (\<lambda>m seat. m(seat := None)) occ seats"

datatype outcome = Returned | Threw error

text \<open>
  The step \<open>check-payment-status\<close> of \<open>releaseSeatsAndDeleteBooking\<close>, run with
  \<open>event.data.bookingId = bid\<close> (the sleep before it changes nothing in the store).
  \<open>Booking.findById\<close> gives the booking as read through the schema.
  \<open>Booking.findById\<close> and \<open>Show.findById\<close> give \<open>null\<close> for an id without a document, and
  the code reads \<open>booking.isPaid\<close> and \<open>show.occupiedSeats\<close> (or calls
  \<open>show.markModified\<close>) without a test for \<open>null\<close>: these reads throw a \<open>TypeError\<close>, before
  any write.
\<close>

definition releaseSeatsAndDeleteBooking :: "string \<Rightarrow> state \<Rightarrow> outcome \<times> state" where
  "releaseSeatsAndDeleteBooking bid st =
     (case Booking_findById bid st of
        None \<Rightarrow> (Threw TypeError, st)
      | Some booking \<Rightarrow>
          if \<not> truthy (isPaid booking) then
            (case Show_findById (showRef booking) st of
               None \<Rightarrow> (Threw TypeError, st)
             | Some sh \<Rightarrow>
                 let sh' = sh\<lparr>occupiedSeats := releaseSeats (bookedSeats booking) (occupiedSeats sh)\<rparr>;
                     st1 = Show_save sh' st;
                     st2 = Booking_findByIdAndDelete (booking_id booking) st1
                 in (Returned, st2))
          else (Returned, st))"

section \<open>Creating a Booking under \<open>bookingSchema\<close>\<close>

text \<open>The fields a caller hands to \<open>Booking.create\<close>; \<open>isPaid\<close> and \<open>paymentLink\<close> are optional.\<close>

record NewBooking =
  nb_user :: string
  nb_show :: string
  nb_amount :: int
  nb_bookedSeats :: "string list"
  nb_isPaid :: "jsval option"
  nb_paymentLink :: "string option"

text \<open>
  The document that \<open>Booking.create\<close> builds at time \<open>now\<close> with the generated id \<open>i\<close>:
  \<open>isPaid\<close> is cast as the schema's \<open>Array\<close> path says, a missing one counting as
  \<open>undefined\<close>, and \<open>createdAt\<close> is set only if the schema options ask for timestamps.
\<close>

definition Booking_new :: "string \<Rightarrow> int \<Rightarrow> NewBooking \<Rightarrow> Booking" where
  "Booking_new i now nb =
     \<lparr>booking_id = i,
      user = nb_user nb,
      showRef = nb_show nb,
      amount = nb_amount nb,
      bookedSeats = nb_bookedSeats nb,
      isPaid = castArray (case nb_isPaid nb of None \<Rightarrow> JUndefined | Some v \<Rightarrow> v),
      paymentLink = nb_paymentLink nb,
      createdAt = (if schema_timestamps bookingSchema_options then Some now else None)\<rparr>"

text \<open>\<open>genId n\<close> is the \<open>n\<close>-th id that the driver generates.\<close>

definition Booking_create :: "(nat \<Rightarrow> string) \<Rightarrow> int \<Rightarrow> NewBooking \<Rightarrow> state \<Rightarrow> state" where
  "Booking_create genId now nb st =
     st\<lparr>bookingDocs := bookingDocs st @ [Booking_new (genId (idCount st)) now nb],
        idCount := Suc (idCount st),
        writes := writes st @ [BookingCreated (genId (idCount st))]\<rparr>"

section \<open>Populating references and sorting\<close>

text \<open>\<open>populate\<close> replaces a reference by the document it names, or by \<open>null\<close> if there is none.\<close>

record PopulatedShow =
  theShow :: Show
  movieOf :: "Movie option"

record PopulatedBooking =
  theBooking :: Booking
  showOf :: "PopulatedShow option"

definition populate_movie :: "state \<Rightarrow> Show \<Rightarrow> PopulatedShow" where
  "populate_movie st sh = \<lparr>theShow = sh, movieOf = Movie_findById (movie sh) st\<rparr>"

definition populate_show :: "state \<Rightarrow> Booking \<Rightarrow> PopulatedBooking" where
  "populate_show st b =
     \<lparr>theBooking = b, showOf = map_option (populate_movie st) (Show_findById (showRef b) st)\<rparr>"

text \<open>
  \<open>.sort({key: -1})\<close>: descending by the key, a missing key (\<open>None\<close>) below every value.
  MongoDB leaves the order of documents with equal keys open; here they keep the order of the
  collection. \<open>.sort({key: 1})\<close> is \<open>sort_key\<close> of the list library, with the same
  convention.
\<close>

fun insort_desc :: "('a \<Rightarrow> 'k::linorder) \<Rightarrow> 'a \<Rightarrow> 'a list \<Rightarrow> 'a list" where
  "insort_desc f x [] = [x]"
| "insort_desc f x (y # ys) = (if f y \<le> f x then x # y # ys else y # insort_desc f x ys)"

definition sort_desc :: "('a \<Rightarrow> 'k::linorder) \<Rightarrow> 'a list \<Rightarrow> 'a list" where
  "sort_desc f xs = foldr (insort_desc f) xs []"

section \<open>HTTP handlers\<close>

record 'a response =
  status :: nat
  success :: bool
  payload :: 'a

subsection \<open>\<open>getUserBookings\<close>\<close>

text \<open>
  \<open>uid\<close> is \<open>req.auth().userId\<close>. The store selects and sorts the stored documents, and
  \<open>Booking.find\<close> hands them over read through the schema. The reads of the store do not fail
  in this model, so the \<open>catch\<close> branch is never taken.
\<close>

definition getUserBookings :: "string \<Rightarrow> state \<Rightarrow> PopulatedBooking list response" where
  "getUserBookings uid st =
     \<lparr>status = 200, success = True,
      payload = map (populate_show st)
                  (map hydrate
                     (sort_desc createdAt (filter (\<lambda>b. user b = uid) (bookingDocs st))))\<rparr>"

subsection \<open>\<open>makeRequestWithRetry\<close>\<close>

text \<open>
  The network is a parameter: \<open>get url n\<close> is what \<open>axios.get(url, config)\<close> gives on the
  attempt made after \<open>n\<close> retries, a response or an error code. The waiting between attempts
  is not modelled. The branch for \<open>SELF_SIGNED_CERT_IN_CHAIN\<close> and the last branch differ
  only in what they log; both rethrow the error.
\<close>

datatype 'r attempt = Response 'r | Failure error_code

function retry_loop ::
  "(string \<Rightarrow> nat \<Rightarrow> 'r attempt) \<Rightarrow> string \<Rightarrow> nat \<Rightarrow> nat \<Rightarrow> error + 'r" where
  "retry_loop get url maxRetries retries =
     (if retries < maxRetries then
        (case get url retries of
           Response r \<Rightarrow> Inr r
         | Failure c \<Rightarrow>
             if c = ECONNRESET \<or> c = ETIMEDOUT \<or> c = ERR_NETWORK
             then retry_loop get url maxRetries (retries + 1)
             else Inl (RequestError c))
      else Inl (RetriesExhausted url maxRetries))"
  by pat_completeness auto
termination
  by (relation "measure (\<lambda>(get, url, maxRetries, retries). maxRetries - retries)") auto

definition makeRequestWithRetry :: "(string \<Rightarrow> nat \<Rightarrow> 'r attempt) \<Rightarrow> string \<Rightarrow> error + 'r" where
  "makeRequestWithRetry get url = retry_loop get url 6 0"

subsection \<open>\<open>addShow\<close>\<close>

text \<open>
  The request body as the admin client sends it: \<open>movieId\<close> a string, \<open>showPrice\<close> a number,
  \<open>showsInput\<close> an array of \<open>{date, time}\<close>, where \<open>time\<close> is an array of strings or one
  string. Each of the three may be absent (\<open>None\<close>).
\<close>

datatype time_value = TimeArray "string list" | TimeSingle string

record ShowInput =
  date :: string
  time :: time_value

record AddShowBody =
  movieId :: "string option"
  showsInput :: "ShowInput list option"
  showPrice :: "int option"

definition js_string :: "string option \<Rightarrow> jsval" where
  "js_string x = (case x of None \<Rightarrow> JUndefined | Some s \<Rightarrow> JStr s)"

definition js_number :: "int option \<Rightarrow> jsval" where
  "js_number x = (case x of None \<Rightarrow> JUndefined | Some n \<Rightarrow> JNum n)"

text \<open>What the two TMDB requests return (\<open>response.data\<close>), as far as \<open>addShow\<close> reads it.\<close>

record MovieApiData =
  api_title :: string
  api_overview :: string
  api_poster_path :: string
  api_backdrop_path :: string
  api_genres :: "string list"
  api_release_date :: string
  api_original_language :: string
  api_tagline :: "string option"
  api_vote_average :: int
  api_runtime :: int

record MovieCreditsData =
  api_cast :: "string list"

text \<open>
  What \<open>addShow\<close> takes from outside the repository: the answers of TMDB to the two requests,
  whether, when both requests fail, the credits request is the one that fails first in time,
  \<open>new Date(string)\<close> (\<open>None\<close> is the invalid date) and the ids the driver generates.
\<close>

record env =
  axiosDetails :: "string \<Rightarrow> nat \<Rightarrow> MovieApiData attempt"
  axiosCredits :: "string \<Rightarrow> nat \<Rightarrow> MovieCreditsData attempt"
  creditsFailsFirst :: bool
  newDate :: "string \<Rightarrow> int option"
  genId :: "nat \<Rightarrow> string"

definition MovieDetails :: "string \<Rightarrow> MovieApiData \<Rightarrow> MovieCreditsData \<Rightarrow> Movie" where
  "MovieDetails mid movieApiData movieCreditsData =
     \<lparr>movie_id = mid,
      title = api_title movieApiData,
      overview = api_overview movieApiData,
      poster_path = api_poster_path movieApiData,
      backdrop_path = api_backdrop_path movieApiData,
      genres = api_genres movieApiData,
      casts = api_cast movieCreditsData,
      release_date = api_release_date movieApiData,
      original_language = api_original_language movieApiData,
      tagline = (if truthy (js_string (api_tagline movieApiData))
                 then (case api_tagline movieApiData of Some t \<Rightarrow> t | None \<Rightarrow> [])
                 else []),
      vote_average = api_vote_average movieApiData,
      runtime = api_runtime movieApiData\<rparr>"

definition Movie_create :: "Movie \<Rightarrow> state \<Rightarrow> state" where
  "Movie_create m st =
     st\<lparr>movieDocs := movieDocs st @ [m], writes := writes st @ [MovieCreated (movie_id m)]\<rparr>"

text \<open>An element of \<open>showsToCreate\<close>; \<open>occupiedSeats\<close> is always \<open>{}\<close>.\<close>

record NewShow =
  n_movie :: string
  n_showDateTime :: "int option"
  n_showPrice :: int

definition showsToCreate :: "env \<Rightarrow> string \<Rightarrow> int \<Rightarrow> ShowInput list \<Rightarrow> NewShow list" where
  "showsToCreate e mid price inp =
     concat (map (\<lambda>show.
       (case time show of
          TimeArray ts \<Rightarrow>
            map (\<lambda>t. \<lparr>n_movie = mid, n_showDateTime = newDate e (date show @ ''T'' @ t),
                      n_showPrice = price\<rparr>) ts
        | TimeSingle t \<Rightarrow>
            [\<lparr>n_movie = mid, n_showDateTime = newDate e (date show @ ''T'' @ t),
              n_showPrice = price\<rparr>])) inp)"

text \<open>
  Modelled from the spec: the schema of Show (\<open>models/Show.js\<close>) is missing. The spec gives a
  Show a start time that is an absolute timestamp, so \<open>Show.insertMany\<close> refuses the whole
  batch with a validation error when one of the dates is invalid, and stores nothing.
  Otherwise the documents are appended with generated ids.
\<close>

definition Show_of_new :: "string \<Rightarrow> NewShow \<Rightarrow> Show option" where
  "Show_of_new i n =
     (case n_showDateTime n of
        None \<Rightarrow> None
      | Some t \<Rightarrow>
          Some \<lparr>show_id = i, movie = n_movie n, showDateTime = t, showPrice = n_showPrice n,
                occupiedSeats = Map.empty\<rparr>)"

definition new_ids :: "env \<Rightarrow> state \<Rightarrow> nat \<Rightarrow> string list" where
  "new_ids e st k = map (\<lambda>j. genId e (idCount st + j)) [0..<k]"

definition Show_insertMany :: "env \<Rightarrow> NewShow list \<Rightarrow> state \<Rightarrow> error + state" where
  "Show_insertMany e news st =
     (if \<exists>n \<in> set news. n_showDateTime n = None then Inl ValidationError
      else Inr (st\<lparr>showDocs :=
                     showDocs st @
                     List.map_filter (\<lambda>(i, n). Show_of_new i n)
                       (zip (new_ids e st (length news)) news),
                   idCount := idCount st + length news,
                   writes := writes st @ [ShowsInserted (new_ids e st (length news))]\<rparr>))"

definition inngest_send :: "event \<Rightarrow> state \<Rightarrow> state" where
  "inngest_send ev st = st\<lparr>events := events st @ [ev]\<rparr>"

datatype message = Text string | ErrorMessage error

definition movie_url :: "string \<Rightarrow> string" where
  "movie_url mid = ''https://api.themoviedb.org/3/movie/'' @ mid"

text \<open>
  \<open>Movie.findById\<close> and, if there is no such movie, the two requests and \<open>Movie.create\<close>.
  The two requests run together under \<open>Promise.all\<close>, which rejects as soon as one of them
  fails: with the error of the one that fails, and when both fail with the error of the one
  that fails first in time.
\<close>

definition addShow_movie :: "env \<Rightarrow> string \<Rightarrow> state \<Rightarrow> error + (Movie \<times> state)" where
  "addShow_movie e mid st =
     (case Movie_findById mid st of
        Some m \<Rightarrow> Inr (m, st)
      | None \<Rightarrow>
          (case makeRequestWithRetry (axiosDetails e) (movie_url mid) of
             Inl err1 \<Rightarrow>
               (case makeRequestWithRetry (axiosCredits e) (movie_url mid @ ''/credits'') of
                  Inl err2 \<Rightarrow> Inl (if creditsFailsFirst e then err2 else err1)
                | Inr movieCreditsData \<Rightarrow> Inl err1)
           | Inr movieApiData \<Rightarrow>
               (case makeRequestWithRetry (axiosCredits e) (movie_url mid @ ''/credits'') of
                  Inl err2 \<Rightarrow> Inl err2
                | Inr movieCreditsData \<Rightarrow>
                    let m = MovieDetails mid movieApiData movieCreditsData
                    in Inr (m, Movie_create m st))))"

definition server_error :: "error \<Rightarrow> message response" where
  "server_error err = \<lparr>status = 500, success = False, payload = ErrorMessage err\<rparr>"

text \<open>The part of \<open>addShow\<close> after the validation.\<close>

definition addShow_checked ::
  "env \<Rightarrow> string \<Rightarrow> ShowInput list \<Rightarrow> int \<Rightarrow> state \<Rightarrow> message response \<times> state" where
  "addShow_checked e mid inp price st =
     (case addShow_movie e mid st of
        Inl err \<Rightarrow> (server_error err, st)
      | Inr (m, st1) \<Rightarrow>
          let news = showsToCreate e mid price inp
          in (case (if length news > 0 then Show_insertMany e news st1 else Inr st1) of
                Inl err \<Rightarrow> (server_error err, st1)
              | Inr st2 \<Rightarrow>
                  (\<lparr>status = 200, success = True, payload = Text ''Show Added successfully.''\<rparr>,
                   inngest_send (ShowAdded (title m)) st2)))"

definition required_fields_missing :: "message response" where
  "required_fields_missing =
     \<lparr>status = 400, success = False, payload = Text ''Required fields missing.''\<rparr>"

text \<open>
  \<open>if (!movieId || !showsInput || showsInput.length === 0 || !showPrice)\<close>: an array is
  truthy, so \<open>!showsInput\<close> holds exactly when the field is absent.
\<close>

definition addShow :: "env \<Rightarrow> AddShowBody \<Rightarrow> state \<Rightarrow> message response \<times> state" where
  "addShow e body st =
     (if \<not> truthy (js_string (movieId body)) \<or> showsInput body = None
         \<or> showsInput body = Some [] \<or> \<not> truthy (js_number (showPrice body))
      then (required_fields_missing, st)
      else (case (movieId body, showsInput body, showPrice body) of
              (Some mid, Some inp, Some price) \<Rightarrow> addShow_checked e mid inp price st
            | _ \<Rightarrow> (required_fields_missing, st)))"

subsection \<open>\<open>getShows\<close>\<close>

text \<open>
  \<open>uniqueMovies\<close> is a JavaScript \<open>Map\<close>, which keeps its keys in the order of their first
  insertion: a list of pairs. A show whose \<open>movie\<close> did not populate is skipped.
\<close>

definition uniqueMovies_step ::
  "(string \<times> Movie) list \<Rightarrow> PopulatedShow \<Rightarrow> (string \<times> Movie) list" where
  "uniqueMovies_step um sh =
     (case movieOf sh of
        None \<Rightarrow> um
      | Some m \<Rightarrow> if movie_id m \<notin> fst ` set um then um @ [(movie_id m, m)] else um)"

text \<open>The entries of a response are documents of either collection.\<close>

datatype document = MovieDoc Movie | ShowDoc PopulatedShow

text \<open>\<open>now\<close> is \<open>new Date()\<close>.\<close>

definition getShows :: "int \<Rightarrow> state \<Rightarrow> document list response" where
  "getShows now st =
     (let shows' = map (populate_movie st)
                     (sort_key showDateTime (filter (\<lambda>s. now \<le> showDateTime s) (showDocs st)));
          uniqueMovies = foldl uniqueMovies_step [] shows'
      in \<lparr>status = 200, success = True, payload = map (\<lambda>(k, m). MovieDoc m) uniqueMovies\<rparr>)"

section \<open>The operations in the words of the specification\<close>

text \<open>
  \<open>listUpcomingShows\<close> as the specification words it: the shows with start time at least
  \<open>now\<close>, in ascending order of start time, one per distinct movie, the first occurrence.
\<close>

fun first_per_movie :: "string list \<Rightarrow> Show list \<Rightarrow> Show list" where
  "first_per_movie seen [] = []"
| "first_per_movie seen (s # ss) =
     (if movie s \<in> set seen then first_per_movie seen ss
      else s # first_per_movie (movie s # seen) ss)"

definition listUpcomingShows_spec :: "int \<Rightarrow> state \<Rightarrow> PopulatedShow list" where
  "listUpcomingShows_spec now st =
     map (populate_movie st)
       (first_per_movie []
          (sort_key showDateTime (filter (\<lambda>s. now \<le> showDateTime s) (showDocs st))))"

text \<open>The (date, time) pairs that a \<open>showsInput\<close> supplies, in the order of the input.\<close>

definition slots :: "ShowInput list \<Rightarrow> (string \<times> string) list" where
  "slots inp =
     concat (map (\<lambda>show.
       (case time show of
          TimeArray ts \<Rightarrow> map (\<lambda>t. (date show, t)) ts
        | TimeSingle t \<Rightarrow> [(date show, t)])) inp)"

text \<open>
  The reasons for which, in the words of the specification, \<open>createShow\<close> rejects a request:
  the movie reference is missing, the list of time slots is missing or empty, or the price
  is missing.
\<close>

definition fields_missing :: "AddShowBody \<Rightarrow> bool" where
  "fields_missing body =
     (movieId body = None \<or> showsInput body = None \<or> showsInput body = Some []
      \<or> showPrice body = None)"

text \<open>
  The same with JavaScript's reading of \<open>!x\<close>: the empty string and the number 0 count as
  missing too.
\<close>

definition fields_falsy :: "AddShowBody \<Rightarrow> bool" where
  "fields_falsy body =
     (fields_missing body \<or> movieId body = Some [] \<or> showPrice body = Some 0)"

section \<open>A small store for the examples\<close>

text \<open>
  Show \<open>X\<close> of movie \<open>m1\<close> with three seats held, show \<open>Y\<close> of movie \<open>m2\<close>, the
  booking \<open>b1\<close> of user \<open>u1\<close> for the seats A1 and A2 of \<open>X\<close>, whose stored \<open>isPaid\<close> is
  the parameter, and the paid booking \<open>b2\<close> of user \<open>u2\<close>.
\<close>

definition showX :: Show where
  "showX = \<lparr>show_id = ''X'', movie = ''m1'', showDateTime = 1000, showPrice = 200,
            occupiedSeats = [''A1'' \<mapsto> ''u1'', ''A2'' \<mapsto> ''u1'', ''B1'' \<mapsto> ''u2'']\<rparr>"

definition showY :: Show where
  "showY = \<lparr>show_id = ''Y'', movie = ''m2'', showDateTime = 2000, showPrice = 150,
            occupiedSeats = [''A1'' \<mapsto> ''u3'']\<rparr>"

definition bookingB1 :: "jsval \<Rightarrow> Booking" where
  "bookingB1 paid = \<lparr>booking_id = ''b1'', user = ''u1'', showRef = ''X'', amount = 400,
                     bookedSeats = [''A1'', ''A2''], isPaid = paid, paymentLink = None,
                     createdAt = None\<rparr>"

definition bookingB2 :: Booking where
  "bookingB2 = \<lparr>booking_id = ''b2'', user = ''u2'', showRef = ''X'', amount = 200,
                bookedSeats = [''B1''], isPaid = JBool True, paymentLink = None,
                createdAt = None\<rparr>"

definition store0 :: "jsval \<Rightarrow> state" where
  "store0 paid = \<lparr>movieDocs = [], showDocs = [showX, showY],
                  bookingDocs = [bookingB1 paid, bookingB2], idCount = 0, writes = [],
                  events = []\<rparr>"

text \<open>Ids for the examples: \<open>n\<close>, \<open>n1\<close>, \<open>n11\<close>, ...\<close>

definition exampleId :: "nat \<Rightarrow> string" where
  "exampleId k = CHR ''n'' # replicate k (CHR ''1'')"

text \<open>Two bookings of user \<open>u1\<close> for show \<open>Y\<close>, as a caller hands them to \<open>Booking.create\<close>.\<close>

definition newBookingA :: NewBooking where
  "newBookingA = \<lparr>nb_user = ''u1'', nb_show = ''Y'', nb_amount = 150, nb_bookedSeats = [''C1''],
                  nb_isPaid = None, nb_paymentLink = None\<rparr>"

definition newBookingB :: NewBooking where
  "newBookingB = \<lparr>nb_user = ''u1'', nb_show = ''Y'', nb_amount = 300,
                  nb_bookedSeats = [''C2'', ''C3''], nb_isPaid = None, nb_paymentLink = None\<rparr>"

definition emptyStore :: state where
  "emptyStore = \<lparr>movieDocs = [], showDocs = [], bookingDocs = [], idCount = 0, writes = [],
                 events = []\<rparr>"

text \<open>
  The world of the examples: TMDB times out once on the details request and then answers,
  \<open>new Date\<close> knows three date strings (seconds since the epoch) and no others.
\<close>

definition apiData550 :: MovieApiData where
  "apiData550 = \<lparr>api_title = ''Fight Club'', api_overview = ''An office worker'',
                 api_poster_path = ''/p.jpg'', api_backdrop_path = ''/b.jpg'',
                 api_genres = [''Drama''], api_release_date = ''1999-10-15'',
                 api_original_language = ''en'', api_tagline = None, api_vote_average = 8,
                 api_runtime = 139\<rparr>"

definition exampleDate :: "string \<Rightarrow> int option" where
  "exampleDate s =
     (if s = ''2025-07-01T18:00'' then Some 1751392800
      else if s = ''2025-07-01T21:00'' then Some 1751403600
      else if s = ''2025-07-02T18:00'' then Some 1751479200
      else None)"

definition env0 :: env where
  "env0 = \<lparr>axiosDetails = (\<lambda>url n. if n = 0 then Failure ETIMEDOUT else Response apiData550),
           axiosCredits = (\<lambda>url n. Response \<lparr>api_cast = [''Edward Norton'']\<rparr>),
           creditsFailsFirst = False,
           newDate = exampleDate,
           genId = exampleId\<rparr>"

definition movie550 :: Movie where
  "movie550 = MovieDetails ''550'' apiData550 \<lparr>api_cast = [''Edward Norton'']\<rparr>"

text \<open>A request for three shows of movie 550 at the price 250, and the same with price 0.\<close>

definition bodyGood :: AddShowBody where
  "bodyGood = \<lparr>movieId = Some ''550'',
               showsInput = Some [\<lparr>date = ''2025-07-01'', time = TimeArray [''18:00'', ''21:00'']\<rparr>,
                                  \<lparr>date = ''2025-07-02'', time = TimeSingle ''18:00''\<rparr>],
               showPrice = Some 250\<rparr>"

definition bodyFree :: AddShowBody where
  "bodyFree = bodyGood\<lparr>showPrice := Some 0\<rparr>"

text \<open>
  A catalogue: the movies \<open>m1\<close> and \<open>m2\<close>; the shows \<open>X\<close> and \<open>Y\<close> from above, a later
  show \<open>Z\<close> of \<open>m1\<close>, a show \<open>W\<close> whose movie \<open>m9\<close> is not in the store, and a past show
  \<open>P\<close> of \<open>m2\<close>.
\<close>

definition movieNamed :: "string \<Rightarrow> string \<Rightarrow> Movie" where
  "movieNamed i t = \<lparr>movie_id = i, title = t, overview = [], poster_path = [],
                     backdrop_path = [], genres = [], casts = [], release_date = [],
                     original_language = ''en'', tagline = [], vote_average = 7,
                     runtime = 120\<rparr>"

definition showAt :: "string \<Rightarrow> string \<Rightarrow> int \<Rightarrow> Show" where
  "showAt i m t = \<lparr>show_id = i, movie = m, showDateTime = t, showPrice = 100,
                   occupiedSeats = Map.empty\<rparr>"

definition catalogue :: state where
  "catalogue = \<lparr>movieDocs = [movieNamed ''m1'' ''Dune'', movieNamed ''m2'' ''Heat''],
                showDocs = [showAt ''Z'' ''m1'' 3000, showY, showAt ''W'' ''m9'' 1500, showX,
                            showAt ''P'' ''m2'' 500],
                bookingDocs = [], idCount = 0, writes = [], events = []\<rparr>"

section \<open>Properties of the release\<close>

lemma releaseSeats_apply:
  "releaseSeats seats occ k = (if k \<in> set seats then None else occ k)"
  unfolding releaseSeats_def
  by (induction seats arbitrary: occ) auto

lemma find_Some_id: "find P xs = Some x \<Longrightarrow> P x"
  by (induction xs) (auto split: if_splits)

lemma find_filter_none: "find P (filter (\<lambda>x. \<not> P x) xs) = None"
  by (induction xs) auto

lemma find_map_upd:
  assumes "find (\<lambda>d. key d = i) xs = Some x"
    and "\<And>d. key (f d) = key d"
  shows "find (\<lambda>d. key d = i) (map (\<lambda>d. if key d = i then f d else d) xs) = Some (f x)"
  using assms by (induction xs) (auto split: if_splits)

lemma find_map_other:
  assumes "j \<noteq> i" and "\<And>d. key (f d) = key d"
  shows "find (\<lambda>d. key d = j) (map (\<lambda>d. if key d = i then f d else d) xs)
         = find (\<lambda>d. key d = j) xs"
  using assms by (induction xs) auto

lemma Show_findById_id: "Show_findById i st = Some sh \<Longrightarrow> show_id sh = i"
  unfolding Show_findById_def by (drule find_Some_id) simp

lemma hydrate_fields [simp]:
  "booking_id (hydrate b) = booking_id b" "user (hydrate b) = user b"
  "showRef (hydrate b) = showRef b" "bookedSeats (hydrate b) = bookedSeats b"
  "createdAt (hydrate b) = createdAt b" "isPaid (hydrate b) = castArray (isPaid b)"
  by (simp_all add: hydrate_def)

lemma Booking_stored_id: "Booking_stored i st = Some b \<Longrightarrow> booking_id b = i"
  unfolding Booking_stored_def by (drule find_Some_id) simp

lemma Booking_findById_id: "Booking_findById i st = Some b \<Longrightarrow> booking_id b = i"
  unfolding Booking_findById_def by (auto dest: Booking_stored_id)

lemma Booking_findById_stored:
  "Booking_stored i st = Some b \<Longrightarrow> Booking_findById i st = Some (hydrate b)"
  by (simp add: Booking_findById_def)

lemma Show_findById_save:
  assumes "Show_findById i st = Some sh"
  shows "Show_findById i (Show_save (sh\<lparr>occupiedSeats := occ\<rparr>) st)
         = Some (sh\<lparr>occupiedSeats := occ\<rparr>)"
proof -
  have i: "show_id sh = i" using assms by (rule Show_findById_id)
  have "find (\<lambda>d. show_id d = i)
          (map (\<lambda>d. if show_id d = i then (\<lambda>d. d\<lparr>occupiedSeats := occ\<rparr>) d else d) (showDocs st))
        = Some ((\<lambda>d. d\<lparr>occupiedSeats := occ\<rparr>) sh)"
    using assms unfolding Show_findById_def
    by (intro find_map_upd) simp_all
  then show ?thesis
    by (simp add: Show_findById_def Show_save_def i cong: if_cong)
qed

lemma Show_findById_save_other:
  assumes "j \<noteq> show_id sh"
  shows "Show_findById j (Show_save sh st) = Show_findById j st"
proof -
  have "find (\<lambda>d. show_id d = j)
          (map (\<lambda>d. if show_id d = show_id sh
                     then (\<lambda>d. d\<lparr>occupiedSeats := occupiedSeats sh\<rparr>) d else d) (showDocs st))
        = find (\<lambda>d. show_id d = j) (showDocs st)"
    using assms by (intro find_map_other) simp_all
  then show ?thesis
    by (simp add: Show_findById_def Show_save_def)
qed

lemma Show_findById_delete [simp]:
  "Show_findById j (Booking_findByIdAndDelete i st) = Show_findById j st"
  by (simp add: Show_findById_def Booking_findByIdAndDelete_def)

lemma Booking_stored_delete [simp]:
  "Booking_stored i (Booking_findByIdAndDelete i st) = None"
  using find_filter_none [of "\<lambda>b. booking_id b = i" "bookingDocs st"]
  by (simp add: Booking_stored_def Booking_findByIdAndDelete_def)

lemma Booking_findById_delete [simp]:
  "Booking_findById i (Booking_findByIdAndDelete i st) = None"
  by (simp add: Booking_findById_def)

lemma writes_save_delete:
  "writes (Booking_findByIdAndDelete i (Show_save sh st))
   = writes st @ [ShowSaved (show_id sh), BookingDeleted i]"
  by (simp add: Booking_findByIdAndDelete_def Show_save_def)

lemma showDocs_save_delete:
  "showDocs (Booking_findByIdAndDelete i (Show_save sh st))
   = map (\<lambda>d. if show_id d = show_id sh then d\<lparr>occupiedSeats := occupiedSeats sh\<rparr> else d)
       (showDocs st)"
  by (simp add: Booking_findByIdAndDelete_def Show_save_def)

section \<open>C1: the handler on a booking that no longer exists\<close>

text \<open>
  C1 says that the handler, run with the id of a booking that no longer exists, returns
  without error and changes nothing. The code does change nothing, but it does not return:
  \<open>Booking.findById\<close> gives \<open>null\<close> and the read \<open>booking.isPaid\<close> throws a \<open>TypeError\<close>.
  The theorem states what the code does for every such id.
\<close>

theorem expire_missing_booking_throws:
  assumes "Booking_findById bid st = None"
  shows "releaseSeatsAndDeleteBooking bid st = (Threw TypeError, st)"
  using assms by (simp add: releaseSeatsAndDeleteBooking_def)

theorem expire_missing_booking_throws_witness:
  "Booking_findById ''b404'' (store0 (JBool False)) = None
   \<and> releaseSeatsAndDeleteBooking ''b404'' (store0 (JBool False))
       = (Threw TypeError, store0 (JBool False))"
proof -
  have h: "Booking_findById ''b404'' (store0 (JBool False)) = None"
    by (simp add: Booking_findById_def Booking_stored_def store0_def bookingB1_def
        bookingB2_def)
  show ?thesis
    using h expire_missing_booking_throws [OF h] by simp
qed

section \<open>C2: the handler on a paid booking\<close>

text \<open>
  C2: if the booking is stored with \<open>isPaid = true\<close> when the handler runs, the handler
  returns and is a no-op: the store is the same, so the booking is still stored with
  \<open>isPaid = true\<close>, and every seat of its \<open>bookedSeats\<close> has in the owning show the entry it
  had before. (The handler reads the value as \<open>[true]\<close>, which is truthy.)
\<close>

theorem expire_paid_booking_noop:
  assumes "Booking_stored bid st = Some b"
    and "isPaid b = JBool True"
  shows "\<exists>st'. releaseSeatsAndDeleteBooking bid st = (Returned, st')
           \<and> st' = st
           \<and> (\<exists>b'. Booking_stored bid st' = Some b' \<and> isPaid b' = JBool True)
           \<and> (\<forall>seat \<in> set (bookedSeats b).
                 map_option (\<lambda>sh. occupiedSeats sh seat) (Show_findById (showRef b) st')
                 = map_option (\<lambda>sh. occupiedSeats sh seat) (Show_findById (showRef b) st))"
proof -
  have "truthy (isPaid (hydrate b))"
    using assms(2) by (simp add: castArray_def)
  then have "releaseSeatsAndDeleteBooking bid st = (Returned, st)"
    using Booking_findById_stored [OF assms(1)]
    by (simp add: releaseSeatsAndDeleteBooking_def)
  with assms show ?thesis by simp
qed

theorem expire_paid_booking_noop_witness:
  "Booking_stored ''b1'' (store0 (JBool True)) = Some (bookingB1 (JBool True))
   \<and> releaseSeatsAndDeleteBooking ''b1'' (store0 (JBool True)) = (Returned, store0 (JBool True))
   \<and> map_option (\<lambda>sh. occupiedSeats sh ''A1'') (Show_findById ''X'' (store0 (JBool True)))
       = Some (Some ''u1'')"
proof -
  have h: "Booking_stored ''b1'' (store0 (JBool True)) = Some (bookingB1 (JBool True))"
    by (simp add: Booking_stored_def store0_def bookingB1_def)
  have p: "isPaid (bookingB1 (JBool True)) = JBool True"
    by (simp add: bookingB1_def)
  have s: "map_option (\<lambda>sh. occupiedSeats sh ''A1'') (Show_findById ''X'' (store0 (JBool True)))
           = Some (Some ''u1'')"
    by (simp add: Show_findById_def store0_def showX_def)
  show ?thesis
    using h s expire_paid_booking_noop [OF h p] by auto
qed

section \<open>C3: the handler on an unpaid booking\<close>

text \<open>
  The release itself: when the booking that the handler reads has a falsy \<open>isPaid\<close> and its
  show exists, the handler returns, afterwards no seat of \<open>bookedSeats\<close> is a key of the
  show's \<open>occupiedSeats\<close> and no booking has the id, and the journal of writes grew by
  exactly two entries, the save of the show first and the deletion of the booking second.
\<close>

lemma release_then_delete:
  assumes "Booking_findById bid st = Some b"
    and "\<not> truthy (isPaid b)"
    and "Show_findById (showRef b) st = Some sh"
  shows "\<exists>st' sh'. releaseSeatsAndDeleteBooking bid st = (Returned, st')
           \<and> Show_findById (showRef b) st' = Some sh'
           \<and> set (bookedSeats b) \<inter> dom (occupiedSeats sh') = {}
           \<and> Booking_findById bid st' = None
           \<and> writes st' = writes st @ [ShowSaved (showRef b), BookingDeleted bid]"
proof -
  let ?occ = "releaseSeats (bookedSeats b) (occupiedSeats sh)"
  let ?sh' = "sh\<lparr>occupiedSeats := ?occ\<rparr>"
  let ?st' = "Booking_findByIdAndDelete bid (Show_save ?sh' st)"
  have bid: "booking_id b = bid" using assms(1) by (rule Booking_findById_id)
  have sid: "show_id sh = showRef b" using assms(3) by (rule Show_findById_id)
  have run: "releaseSeatsAndDeleteBooking bid st = (Returned, ?st')"
    using assms(1-3) by (simp add: releaseSeatsAndDeleteBooking_def bid)
  have found: "Show_findById (showRef b) ?st' = Some ?sh'"
    using Show_findById_save [OF assms(3)] by simp
  have free: "set (bookedSeats b) \<inter> dom (occupiedSeats ?sh') = {}"
    by (auto simp: releaseSeats_apply)
  have gone: "Booking_findById bid ?st' = None" by simp
  have order: "writes ?st' = writes st @ [ShowSaved (showRef b), BookingDeleted bid]"
    using writes_save_delete [of bid ?sh' st] by (simp add: sid)
  from run found free gone order show ?thesis by blast
qed

text \<open>
  C3 says that the handler, run for a booking with \<open>isPaid = false\<close>, removes the booking's
  seats from the show and deletes the booking. It does neither. The schema declares
  \<open>isPaid\<close> as an \<open>Array\<close> path, so the handler reads the stored \<open>false\<close> as \<open>[false]\<close>, an
  array, which is truthy: the test \<open>!booking.isPaid\<close> fails and the handler returns with the
  store as it was, the booking still stored and its seats still held.
\<close>

theorem expire_unpaid_booking_kept:
  assumes "Booking_stored bid st = Some b"
    and "isPaid b = JBool False"
  shows "releaseSeatsAndDeleteBooking bid st = (Returned, st)"
proof -
  have "truthy (isPaid (hydrate b))"
    using assms(2) by (simp add: castArray_def)
  then show ?thesis
    using Booking_findById_stored [OF assms(1)]
    by (simp add: releaseSeatsAndDeleteBooking_def)
qed

theorem expire_unpaid_booking_kept_witness:
  "Booking_stored ''b1'' (store0 (JBool False)) = Some (bookingB1 (JBool False))
   \<and> isPaid (bookingB1 (JBool False)) = JBool False
   \<and> releaseSeatsAndDeleteBooking ''b1'' (store0 (JBool False))
       = (Returned, store0 (JBool False))
   \<and> map_option (\<lambda>sh. (occupiedSeats sh ''A1'', occupiedSeats sh ''A2''))
        (Show_findById ''X'' (store0 (JBool False)))
       = Some (Some ''u1'', Some ''u1'')"
proof -
  have h: "Booking_stored ''b1'' (store0 (JBool False)) = Some (bookingB1 (JBool False))"
    by (simp add: Booking_stored_def store0_def bookingB1_def)
  have p: "isPaid (bookingB1 (JBool False)) = JBool False"
    by (simp add: bookingB1_def)
  have s: "map_option (\<lambda>sh. (occupiedSeats sh ''A1'', occupiedSeats sh ''A2''))
             (Show_findById ''X'' (store0 (JBool False)))
           = Some (Some ''u1'', Some ''u1'')"
    by (simp add: Show_findById_def store0_def showX_def)
  show ?thesis
    using h p s expire_unpaid_booking_kept [OF h p] by simp
qed

section \<open>C4: releasing seats twice\<close>

text \<open>
  C4: for every map of occupied seats and every list of seat labels, releasing the labels
  from the map that a first release left gives that same map; and releasing a label that
  is not a key of the map leaves the map as it is. The release has no error branch: it
  is a total function on maps.
\<close>

theorem releaseSeats_idempotent:
  "releaseSeats seats (releaseSeats seats occ) = releaseSeats seats occ
   \<and> (seat \<notin> dom occ \<longrightarrow> releaseSeats [seat] occ = occ)"
  by (auto simp: releaseSeats_apply fun_eq_iff domIff)

theorem releaseSeats_idempotent_witness:
  "''C9'' \<notin> dom (occupiedSeats showX)
   \<and> releaseSeats [''C9''] (occupiedSeats showX) = occupiedSeats showX
   \<and> releaseSeats [''A1'', ''C9''] (releaseSeats [''A1'', ''C9''] (occupiedSeats showX))
       = [''A2'' \<mapsto> ''u1'', ''B1'' \<mapsto> ''u2'']"
proof -
  have h: "''C9'' \<notin> dom (occupiedSeats showX)"
    by (simp add: showX_def)
  have v: "releaseSeats [''A1'', ''C9''] (occupiedSeats showX) = [''A2'' \<mapsto> ''u1'', ''B1'' \<mapsto> ''u2'']"
    by (simp add: releaseSeats_def showX_def fun_eq_iff)
  show ?thesis
    using h v
      releaseSeats_idempotent [of "[''A1'', ''C9'']" "occupiedSeats showX" "''C9''"]
    by simp
qed

section \<open>C10: what the handler leaves alone\<close>

text \<open>
  C10: whatever the handler does, it adds and removes no Show document, every Show document
  whose id is not the \<open>show\<close> of the booking is the same afterwards, and the Show of the
  booking changes only in \<open>occupiedSeats\<close>, and there only at the labels of \<open>bookedSeats\<close>:
  every other label has the holder, or the absence, it had before. If there is no booking
  of that id, every Show document is the same.
\<close>

theorem release_frame:
  assumes "releaseSeatsAndDeleteBooking bid st = (out, st')"
  shows "length (showDocs st') = length (showDocs st)
    \<and> (\<forall>i < length (showDocs st).
          (\<forall>b. Booking_findById bid st = Some b \<longrightarrow> show_id (showDocs st ! i) \<noteq> showRef b)
          \<longrightarrow> showDocs st' ! i = showDocs st ! i)
    \<and> (\<forall>b sh. Booking_findById bid st = Some b \<and> Show_findById (showRef b) st = Some sh
          \<longrightarrow> (\<exists>sh'. Show_findById (showRef b) st' = Some sh'
                 \<and> sh'\<lparr>occupiedSeats := occupiedSeats sh\<rparr> = sh
                 \<and> (\<forall>seat. seat \<notin> set (bookedSeats b)
                       \<longrightarrow> occupiedSeats sh' seat = occupiedSeats sh seat)))"
proof (cases "Booking_findById bid st")
  case None
  then have "st' = st"
    using assms by (simp add: releaseSeatsAndDeleteBooking_def)
  with None show ?thesis by simp
next
  case (Some b)
  show ?thesis
  proof (cases "truthy (isPaid b)")
    case True
    then have "st' = st"
      using assms Some by (simp add: releaseSeatsAndDeleteBooking_def)
    then show ?thesis by simp
  next
    case unpaid: False
    show ?thesis
    proof (cases "Show_findById (showRef b) st")
      case None
      then have "st' = st"
        using assms Some unpaid by (simp add: releaseSeatsAndDeleteBooking_def)
      with None Some show ?thesis by simp
    next
      case (Some sh)
      let ?occ = "releaseSeats (bookedSeats b) (occupiedSeats sh)"
      let ?sh' = "sh\<lparr>occupiedSeats := ?occ\<rparr>"
      have bid: "booking_id b = bid"
        using \<open>Booking_findById bid st = Some b\<close> by (rule Booking_findById_id)
      have sid: "show_id sh = showRef b" using Some by (rule Show_findById_id)
      have st': "st' = Booking_findByIdAndDelete bid (Show_save ?sh' st)"
        using assms \<open>Booking_findById bid st = Some b\<close> unpaid Some
        by (simp add: releaseSeatsAndDeleteBooking_def bid)
      have docs: "showDocs st'
                  = map (\<lambda>d. if show_id d = showRef b then d\<lparr>occupiedSeats := ?occ\<rparr> else d)
                      (showDocs st)"
        unfolding st' showDocs_save_delete by (simp add: sid)
      have len: "length (showDocs st') = length (showDocs st)"
        unfolding docs by simp
      have others: "\<forall>i < length (showDocs st).
          (\<forall>b. Booking_findById bid st = Some b \<longrightarrow> show_id (showDocs st ! i) \<noteq> showRef b)
          \<longrightarrow> showDocs st' ! i = showDocs st ! i"
        unfolding docs using \<open>Booking_findById bid st = Some b\<close> by simp
      have found: "Show_findById (showRef b) st' = Some ?sh'"
        unfolding st' using Show_findById_save [OF Some] by simp
      have own: "?sh'\<lparr>occupiedSeats := occupiedSeats sh\<rparr> = sh
                 \<and> (\<forall>seat. seat \<notin> set (bookedSeats b)
                       \<longrightarrow> occupiedSeats ?sh' seat = occupiedSeats sh seat)"
        by (simp add: releaseSeats_apply)
      from len others found own \<open>Booking_findById bid st = Some b\<close> Some
      show ?thesis by simp
    qed
  qed
qed

theorem release_frame_witness:
  "\<exists>st' sh'. releaseSeatsAndDeleteBooking ''b1'' (store0 JNull) = (Returned, st')
      \<and> length (showDocs st') = 2
      \<and> showDocs st' ! 1 = showY
      \<and> Show_findById ''X'' st' = Some sh'
      \<and> sh'\<lparr>occupiedSeats := occupiedSeats showX\<rparr> = showX
      \<and> occupiedSeats sh' ''B1'' = Some ''u2''
      \<and> occupiedSeats sh' ''C9'' = None"
proof -
  let ?st = "store0 JNull"
  let ?b = "bookingB1 JNull"
  obtain st' where run: "releaseSeatsAndDeleteBooking ''b1'' ?st = (Returned, st')"
    by (simp add: releaseSeatsAndDeleteBooking_def Booking_findById_def Booking_stored_def
        hydrate_def castArray_def Show_findById_def store0_def bookingB1_def showX_def)
  have h1: "Booking_findById ''b1'' ?st = Some ?b"
    by (simp add: Booking_findById_def Booking_stored_def hydrate_def castArray_def
        store0_def bookingB1_def)
  have h3: "Show_findById (showRef ?b) ?st = Some showX"
    by (simp add: Show_findById_def store0_def bookingB1_def showX_def)
  have e: "showRef ?b = ''X''" "showDocs ?st = [showX, showY]"
    "show_id showY = ''Y''" "bookedSeats ?b = [''A1'', ''A2'']"
    "occupiedSeats showX ''B1'' = Some ''u2''" "occupiedSeats showX ''C9'' = None"
    by (simp_all add: bookingB1_def store0_def showY_def showX_def)
  have f: "length (showDocs st') = length (showDocs ?st)
    \<and> (\<forall>i < length (showDocs ?st).
          (\<forall>b. Booking_findById ''b1'' ?st = Some b \<longrightarrow> show_id (showDocs ?st ! i) \<noteq> showRef b)
          \<longrightarrow> showDocs st' ! i = showDocs ?st ! i)
    \<and> (\<forall>b sh. Booking_findById ''b1'' ?st = Some b \<and> Show_findById (showRef b) ?st = Some sh
          \<longrightarrow> (\<exists>sh'. Show_findById (showRef b) st' = Some sh'
                 \<and> sh'\<lparr>occupiedSeats := occupiedSeats sh\<rparr> = sh
                 \<and> (\<forall>seat. seat \<notin> set (bookedSeats b)
                       \<longrightarrow> occupiedSeats sh' seat = occupiedSeats sh seat)))"
    by (rule release_frame [OF run])
  from f have len: "length (showDocs st') = 2" by (simp add: e)
  from f have "showDocs st' ! 1 = showDocs ?st ! 1"
    unfolding h1 by (simp add: e)
  then have y: "showDocs st' ! 1 = showY" by (simp add: e)
  have own: "\<forall>b sh. Booking_findById ''b1'' ?st = Some b \<and> Show_findById (showRef b) ?st = Some sh
          \<longrightarrow> (\<exists>sh'. Show_findById (showRef b) st' = Some sh'
                 \<and> sh'\<lparr>occupiedSeats := occupiedSeats sh\<rparr> = sh
                 \<and> (\<forall>seat. seat \<notin> set (bookedSeats b)
                       \<longrightarrow> occupiedSeats sh' seat = occupiedSeats sh seat))"
    by (rule conjunct2 [OF conjunct2 [OF f]])
  have "\<exists>sh'. Show_findById (showRef ?b) st' = Some sh'
           \<and> sh'\<lparr>occupiedSeats := occupiedSeats showX\<rparr> = showX
           \<and> (\<forall>seat. seat \<notin> set (bookedSeats ?b)
                 \<longrightarrow> occupiedSeats sh' seat = occupiedSeats showX seat)"
    by (rule mp [OF spec [OF spec [OF own]] conjI [OF h1 h3]])
  then obtain sh' where sh': "Show_findById ''X'' st' = Some sh'"
      "sh'\<lparr>occupiedSeats := occupiedSeats showX\<rparr> = showX"
      "\<forall>seat. seat \<notin> set (bookedSeats ?b) \<longrightarrow> occupiedSeats sh' seat = occupiedSeats showX seat"
    unfolding e(1) by blast
  from sh'(3) have "occupiedSeats sh' ''B1'' = Some ''u2''" "occupiedSeats sh' ''C9'' = None"
    by (simp_all add: e)
  with run len y sh'(1,2) show ?thesis by blast
qed


section \<open>C5: \<open>isPaid\<close> of a new booking\<close>

lemma castArray_idem: "castArray (castArray v) = castArray v"
  by (cases v) (simp_all add: castArray_def)

lemma hydrate_Booking_new: "hydrate (Booking_new i now nb) = Booking_new i now nb"
  by (simp add: hydrate_def Booking_new_def castArray_idem)

lemma isPaid_Booking_new_default:
  "nb_isPaid nb = None \<Longrightarrow> isPaid (Booking_new i now nb) = JArr [JBool False]"
  by (simp add: Booking_new_def castArray_def bookingSchema_isPaid_default_def)

lemma find_append_none: "find P xs = None \<Longrightarrow> find P (xs @ ys) = find P ys"
  by (induction xs) (auto split: if_splits)

lemma Booking_findById_create:
  assumes "Booking_findById (gen (idCount st)) st = None"
  shows "Booking_findById (gen (idCount st)) (Booking_create gen now nb st)
         = Some (Booking_new (gen (idCount st)) now nb)"
proof -
  have "Booking_stored (gen (idCount st)) st = None"
    using assms by (simp add: Booking_findById_def)
  then have "Booking_stored (gen (idCount st)) (Booking_create gen now nb st)
             = Some (Booking_new (gen (idCount st)) now nb)"
    by (simp add: Booking_stored_def Booking_create_def find_append_none Booking_new_def)
  then show ?thesis
    by (simp add: Booking_findById_def hydrate_Booking_new)
qed

text \<open>
  C5 says that a booking is created with \<open>isPaid\<close> equal to the boolean \<open>false\<close>, so that a
  new unpaid booking passes the handler's test \<open>!booking.isPaid\<close> and is released at the
  timeout. The schema declares the path as \<open>{type: Array, default: false}\<close>: a booking
  created without an \<open>isPaid\<close> gets the array \<open>[false]\<close>, not the boolean \<open>false\<close>, and an
  array is truthy. So the handler, run for a booking just created under a fresh id, returns
  without releasing anything: the store is the same afterwards.
\<close>

theorem new_booking_isPaid_not_false:
  assumes "Booking_findById (gen (idCount st)) st = None"
    and "nb_isPaid nb = None"
  shows "\<exists>b. Booking_findById (gen (idCount st)) (Booking_create gen now nb st) = Some b
           \<and> isPaid b = JArr [JBool False]
           \<and> isPaid b \<noteq> JBool False
           \<and> truthy (isPaid b)
           \<and> releaseSeatsAndDeleteBooking (gen (idCount st)) (Booking_create gen now nb st)
               = (Returned, Booking_create gen now nb st)"
proof -
  let ?b = "Booking_new (gen (idCount st)) now nb"
  have found: "Booking_findById (gen (idCount st)) (Booking_create gen now nb st) = Some ?b"
    using assms(1) by (rule Booking_findById_create)
  have arr: "isPaid ?b = JArr [JBool False]"
    using assms(2) by (rule isPaid_Booking_new_default)
  then have t: "isPaid ?b \<noteq> JBool False" "truthy (isPaid ?b)"
    by simp_all
  have "releaseSeatsAndDeleteBooking (gen (idCount st)) (Booking_create gen now nb st)
        = (Returned, Booking_create gen now nb st)"
    using found t(2) by (simp add: releaseSeatsAndDeleteBooking_def)
  with found arr t show ?thesis by blast
qed

theorem new_booking_isPaid_not_false_witness:
  "Booking_findById ''n'' (Booking_create exampleId 100 newBookingA (store0 (JBool False)))
     = Some (Booking_new ''n'' 100 newBookingA)
   \<and> isPaid (Booking_new ''n'' 100 newBookingA) = JArr [JBool False]
   \<and> releaseSeatsAndDeleteBooking ''n''
        (Booking_create exampleId 100 newBookingA (store0 (JBool False)))
       = (Returned, Booking_create exampleId 100 newBookingA (store0 (JBool False)))"
proof -
  let ?st = "store0 (JBool False)"
  have i: "exampleId (idCount ?st) = ''n''"
    by (simp add: exampleId_def store0_def)
  have h: "Booking_findById (exampleId (idCount ?st)) ?st = None"
    unfolding i
    by (simp add: Booking_findById_def Booking_stored_def store0_def bookingB1_def
        bookingB2_def)
  have n: "nb_isPaid newBookingA = None"
    by (simp add: newBookingA_def)
  have f: "Booking_findById ''n'' (Booking_create exampleId 100 newBookingA ?st)
           = Some (Booking_new ''n'' 100 newBookingA)"
    using Booking_findById_create [where gen = exampleId and st = "?st", OF h, of 100 newBookingA]
    unfolding i .
  have v: "isPaid (Booking_new ''n'' 100 newBookingA) = JArr [JBool False]"
    using n by (rule isPaid_Booking_new_default)
  show ?thesis
    using f v
      new_booking_isPaid_not_false [where gen = exampleId and st = "?st", OF h n, of 100]
    unfolding i by simp
qed

section \<open>C6: the bookings of a user\<close>

lemma set_insort_desc: "set (insort_desc f x xs) = insert x (set xs)"
  by (induction xs) auto

lemma set_sort_desc: "set (sort_desc f xs) = set xs"
  unfolding sort_desc_def by (induction xs) (simp_all add: set_insort_desc)

lemma sort_desc_equal_keys:
  assumes "\<forall>x \<in> set xs. f x = k"
  shows "sort_desc f xs = xs"
  using assms
proof (induction xs)
  case Nil
  then show ?case by (simp add: sort_desc_def)
next
  case (Cons x xs)
  then have tl: "foldr (insort_desc f) xs [] = xs"
    by (simp add: sort_desc_def)
  show ?case
  proof (cases xs)
    case Nil
    then show ?thesis by (simp add: sort_desc_def)
  next
    case (Cons y ys)
    with Cons.prems have "f y \<le> f x" by simp
    with Cons tl show ?thesis by (simp add: sort_desc_def)
  qed
qed

text \<open>
  The part of C6 that does not depend on the order: the response lists the bookings whose
  \<open>user\<close> is the caller's id, and no others, each with its show and the show's movie
  populated.
\<close>

lemma getUserBookings_members:
  "set (payload (getUserBookings uid st))
   = populate_show st ` hydrate ` {b \<in> set (bookingDocs st). user b = uid}"
  by (simp add: getUserBookings_def set_sort_desc image_image)

lemma createdAt_Booking_new: "createdAt (Booking_new i now nb) = None"
  by (simp add: Booking_new_def schema_timestamps_def bookingSchema_options_def)

text \<open>
  C6 says that \<open>getUserBookings\<close> returns the bookings of the user newest first by creation
  time. The code sorts by \<open>createdAt\<close>, but the schema is built with the option
  \<open>timestamp\<close>, not \<open>timestamps\<close>, so no booking gets a \<open>createdAt\<close>
  (\<open>createdAt_Booking_new\<close>). With that key missing on every booking the sort compares
  equal keys only, and the response lists the user's bookings in the order of the
  collection, where an older booking stands before a newer one.
\<close>

theorem getUserBookings_without_createdAt:
  assumes "\<forall>b \<in> set (bookingDocs st). createdAt b = None"
  shows "payload (getUserBookings uid st)
         = map (populate_show st) (map hydrate (filter (\<lambda>b. user b = uid) (bookingDocs st)))"
proof -
  have "\<forall>b \<in> set (filter (\<lambda>b. user b = uid) (bookingDocs st)). createdAt b = None"
    using assms by simp
  then have "sort_desc createdAt (filter (\<lambda>b. user b = uid) (bookingDocs st))
             = filter (\<lambda>b. user b = uid) (bookingDocs st)"
    by (rule sort_desc_equal_keys)
  then show ?thesis by (simp add: getUserBookings_def)
qed

theorem getUserBookings_without_createdAt_witness:
  "map (\<lambda>p. (booking_id (theBooking p), bookedSeats (theBooking p)))
     (payload (getUserBookings ''u1''
        (Booking_create exampleId 200 newBookingB
          (Booking_create exampleId 100 newBookingA emptyStore))))
   = [(''n'', [''C1'']), (''n1'', [''C2'', ''C3''])]"
proof -
  let ?st = "Booking_create exampleId 200 newBookingB
               (Booking_create exampleId 100 newBookingA emptyStore)"
  have docs: "bookingDocs ?st
              = [Booking_new ''n'' 100 newBookingA, Booking_new ''n1'' 200 newBookingB]"
    by (simp add: Booking_create_def emptyStore_def exampleId_def)
  have h: "\<forall>b \<in> set (bookingDocs ?st). createdAt b = None"
    unfolding docs by (simp add: createdAt_Booking_new)
  have u: "user (Booking_new ''n'' 100 newBookingA) = ''u1''"
      "user (Booking_new ''n1'' 200 newBookingB) = ''u1''"
      "booking_id (Booking_new ''n'' 100 newBookingA) = ''n''"
      "booking_id (Booking_new ''n1'' 200 newBookingB) = ''n1''"
      "bookedSeats (Booking_new ''n'' 100 newBookingA) = [''C1'']"
      "bookedSeats (Booking_new ''n1'' 200 newBookingB) = [''C2'', ''C3'']"
    by (simp_all add: Booking_new_def newBookingA_def newBookingB_def)
  show ?thesis
    using getUserBookings_without_createdAt [OF h, of "''u1''"]
    unfolding docs by (simp add: u populate_show_def)
qed

section \<open>C7: the validation of \<open>addShow\<close>\<close>

lemma status_addShow_checked:
  "status (fst (addShow_checked e mid inp price st)) = 500
   \<or> status (fst (addShow_checked e mid inp price st)) = 200"
  by (simp add: addShow_checked_def server_error_def Let_def split: sum.splits prod.splits)

lemma addShow_rejects:
  assumes "fields_falsy body"
  shows "addShow e body st = (required_fields_missing, st)"
proof -
  have "\<not> truthy (js_string (movieId body)) \<or> showsInput body = None
        \<or> showsInput body = Some [] \<or> \<not> truthy (js_number (showPrice body))"
    using assms
    by (auto simp: fields_falsy_def fields_missing_def js_string_def js_number_def)
  then show ?thesis by (simp add: addShow_def)
qed

lemma addShow_accepts:
  assumes "\<not> fields_falsy body"
  shows "\<exists>mid inp price. movieId body = Some mid \<and> showsInput body = Some inp
           \<and> showPrice body = Some price
           \<and> addShow e body st = addShow_checked e mid inp price st"
proof -
  from assms obtain mid inp price where f: "movieId body = Some mid" "mid \<noteq> []"
      "showsInput body = Some inp" "inp \<noteq> []" "showPrice body = Some price" "price \<noteq> 0"
    by (auto simp: fields_falsy_def fields_missing_def)
  then have "addShow e body st = addShow_checked e mid inp price st"
    by (simp add: addShow_def js_string_def js_number_def)
  with f show ?thesis by blast
qed

text \<open>
  C7, as the code has it. \<open>addShow\<close> answers 400 with \<open>success = false\<close> and the message
  ``Required fields missing.'', and leaves the store as it is (no Show, no Movie, no event),
  whenever the movie reference is missing or the empty string, the list of time slots is
  missing or empty, or the price is missing or 0. In every other case its status is not 400.
\<close>

theorem addShow_required_fields:
  "(fields_falsy body \<longrightarrow> addShow e body st = (required_fields_missing, st))
   \<and> (\<not> fields_falsy body \<longrightarrow> status (fst (addShow e body st)) \<noteq> 400)"
proof (intro conjI impI)
  assume "fields_falsy body"
  then show "addShow e body st = (required_fields_missing, st)" by (rule addShow_rejects)
next
  assume "\<not> fields_falsy body"
  then obtain mid inp price where "addShow e body st = addShow_checked e mid inp price st"
    using addShow_accepts by blast
  then show "status (fst (addShow e body st)) \<noteq> 400"
    using status_addShow_checked [of e mid inp price st] by auto
qed

theorem addShow_required_fields_witness:
  "fields_falsy bodyFree
   \<and> addShow env0 bodyFree emptyStore = (required_fields_missing, emptyStore)
   \<and> status required_fields_missing = 400
   \<and> \<not> fields_falsy bodyGood
   \<and> status (fst (addShow env0 bodyGood emptyStore)) \<noteq> 400"
proof -
  have a: "fields_falsy bodyFree"
    by (simp add: fields_falsy_def bodyFree_def)
  have b: "\<not> fields_falsy bodyGood"
    by (simp add: fields_falsy_def fields_missing_def bodyGood_def)
  show ?thesis
    using a b addShow_required_fields [of bodyFree env0 emptyStore]
      addShow_required_fields [of bodyGood env0 emptyStore]
    by (simp add: required_fields_missing_def)
qed

text \<open>
  C7 as the specification words it fails: a request that carries a movie reference, a
  non-empty list of time slots and the price 0 is rejected with 400 although none of the
  three is missing.
\<close>

theorem addShow_price_zero_rejected:
  "\<not> fields_missing bodyFree
   \<and> addShow env0 bodyFree emptyStore = (required_fields_missing, emptyStore)
   \<and> status required_fields_missing = 400"
  by (simp add: fields_missing_def bodyFree_def bodyGood_def addShow_def js_number_def
      js_string_def required_fields_missing_def)

section \<open>C8: the shows that \<open>addShow\<close> creates\<close>

lemma showsToCreate_slots:
  "showsToCreate e mid price inp
   = map (\<lambda>(d, t). \<lparr>n_movie = mid, n_showDateTime = newDate e (d @ ''T'' @ t),
                     n_showPrice = price\<rparr>) (slots inp)"
  by (induction inp) (auto simp: showsToCreate_def slots_def split: time_value.splits)

lemma inserted_shows:
  assumes "length ids = length ps"
    and "\<forall>(d, t) \<in> set ps. newDate e (d @ ''T'' @ t) \<noteq> None"
  shows "list_all2
           (\<lambda>(d, t) s. movie s = mid \<and> Show.showPrice s = price
                        \<and> newDate e (d @ ''T'' @ t) = Some (showDateTime s)
                        \<and> occupiedSeats s = Map.empty)
           ps
           (List.map_filter (\<lambda>(i, n). Show_of_new i n)
              (zip ids (map (\<lambda>(d, t). \<lparr>n_movie = mid, n_showDateTime = newDate e (d @ ''T'' @ t),
                                        n_showPrice = price\<rparr>) ps)))"
  using assms
proof (induction ps arbitrary: ids)
  case Nil
  then show ?case by (simp add: map_filter_simps)
next
  case (Cons p ps)
  then obtain i ids' where ids: "ids = i # ids'" "length ids' = length ps"
    by (cases ids) auto
  obtain d t where p: "p = (d, t)" by (cases p)
  from Cons.prems(2) p obtain v where v: "newDate e (d @ ''T'' @ t) = Some v" by auto
  have "\<forall>(d, t) \<in> set ps. newDate e (d @ ''T'' @ t) \<noteq> None"
    using Cons.prems(2) by simp
  moreover have "newDate e (d @ CHR ''T'' # t) = Some v" using v by simp
  ultimately show ?case
    using Cons.IH [OF ids(2)]
    by (simp add: ids p map_filter_simps Show_of_new_def)
qed

lemma addShow_movie_frame:
  assumes "addShow_movie e mid st = Inr (m, st1)"
  shows "showDocs st1 = showDocs st \<and> events st1 = events st \<and> idCount st1 = idCount st"
  using assms
  by (auto simp: addShow_movie_def Movie_create_def Let_def split: option.splits sum.splits)

text \<open>
  C8. A request is valid when its three fields pass the validation, every date string
  \<open>date\<close>T\<open>time\<close> of the input is a date, and the movie is in the store or TMDB answers
  both requests (\<open>addShow_movie\<close> gives the movie). Then \<open>addShow\<close> answers 200 with the
  message ``Show Added successfully.'', the Show collection grows by one document for each
  (date, time) pair of the input, in the order of the input, each with the movie reference
  and the price of the request, the start time that the pair's date string gives and an
  empty \<open>occupiedSeats\<close>, and the event ``show added'' with the movie's title is sent.
\<close>

theorem addShow_one_show_per_slot:
  assumes "movieId body = Some mid" and "showsInput body = Some inp"
    and "showPrice body = Some price"
    and "\<not> fields_falsy body"
    and "\<forall>(d, t) \<in> set (slots inp). newDate e (d @ ''T'' @ t) \<noteq> None"
    and "addShow_movie e mid st = Inr (m, st1)"
  shows "\<exists>st' news.
           addShow e body st
             = (\<lparr>status = 200, success = True, payload = Text ''Show Added successfully.''\<rparr>, st')
           \<and> showDocs st' = showDocs st @ news
           \<and> list_all2
                (\<lambda>(d, t) s. movie s = mid \<and> Show.showPrice s = price
                             \<and> newDate e (d @ ''T'' @ t) = Some (showDateTime s)
                             \<and> occupiedSeats s = Map.empty)
                (slots inp) news
           \<and> events st' = events st @ [ShowAdded (title m)]"
proof -
  let ?ok = "\<lparr>status = 200, success = True, payload = Text ''Show Added successfully.''\<rparr>"
  let ?mk = "\<lambda>(d, t). \<lparr>n_movie = mid, n_showDateTime = newDate e (d @ ''T'' @ t),
                        n_showPrice = price\<rparr>"
  let ?R = "\<lambda>(d, t) s. movie s = mid \<and> Show.showPrice s = price
                        \<and> newDate e (d @ ''T'' @ t) = Some (showDateTime s)
                        \<and> occupiedSeats s = Map.empty"
  let ?news = "showsToCreate e mid price inp"
  have frame: "showDocs st1 = showDocs st" "events st1 = events st"
    using addShow_movie_frame [OF assms(6)] by simp_all
  have run: "addShow e body st = addShow_checked e mid inp price st"
    using addShow_accepts [OF assms(4), of e st] assms(1-3) by auto
  have news: "?news = map ?mk (slots inp)" by (rule showsToCreate_slots)
  have ok: "\<not> (\<exists>n \<in> set ?news. n_showDateTime n = None)"
    unfolding news using assms(5) by auto
  show ?thesis
  proof (cases "slots inp = []")
    case True
    then have "?news = []" unfolding news by simp
    then have "addShow_checked e mid inp price st = (?ok, inngest_send (ShowAdded (title m)) st1)"
      using assms(6) by (simp add: addShow_checked_def)
    with run frame True show ?thesis
      by (simp add: inngest_send_def)
  next
    case False
    let ?ids = "new_ids e st1 (length ?news)"
    let ?docs = "List.map_filter (\<lambda>(i, n). Show_of_new i n) (zip ?ids ?news)"
    let ?st2 = "st1\<lparr>showDocs := showDocs st1 @ ?docs,
                     idCount := idCount st1 + length ?news,
                     writes := writes st1 @ [ShowsInserted ?ids]\<rparr>"
    from False have some: "length ?news > 0" unfolding news by simp
    have ins: "Show_insertMany e ?news st1 = Inr ?st2"
      using ok by (simp add: Show_insertMany_def)
    have "addShow_checked e mid inp price st = (?ok, inngest_send (ShowAdded (title m)) ?st2)"
      using some by (simp add: addShow_checked_def Let_def assms(6) ins)
    moreover have "length ?ids = length (slots inp)"
      unfolding news by (simp add: new_ids_def)
    then have "list_all2 ?R (slots inp)
                 (List.map_filter (\<lambda>(i, n). Show_of_new i n) (zip ?ids (map ?mk (slots inp))))"
      using assms(5) by (rule inserted_shows)
    then have "list_all2 ?R (slots inp) ?docs" unfolding news .
    ultimately show ?thesis
      using run frame by (simp add: inngest_send_def)
  qed
qed

theorem addShow_one_show_per_slot_witness:
  "\<exists>st' news.
     addShow env0 bodyGood emptyStore
       = (\<lparr>status = 200, success = True, payload = Text ''Show Added successfully.''\<rparr>, st')
     \<and> showDocs st' = news
     \<and> list_all2
          (\<lambda>(d, t) s. movie s = ''550'' \<and> Show.showPrice s = 250
                       \<and> exampleDate (d @ ''T'' @ t) = Some (showDateTime s)
                       \<and> occupiedSeats s = Map.empty)
          [(''2025-07-01'', ''18:00''), (''2025-07-01'', ''21:00''), (''2025-07-02'', ''18:00'')]
          news
     \<and> events st' = [ShowAdded ''Fight Club'']"
proof -
  let ?inp = "[\<lparr>date = ''2025-07-01'', time = TimeArray [''18:00'', ''21:00'']\<rparr>,
               \<lparr>date = ''2025-07-02'', time = TimeSingle ''18:00''\<rparr>]"
  have h1: "movieId bodyGood = Some ''550''" by (simp add: bodyGood_def)
  have h2: "showsInput bodyGood = Some ?inp" by (simp add: bodyGood_def)
  have h3: "AddShowBody.showPrice bodyGood = Some 250" by (simp add: bodyGood_def)
  have h4: "\<not> fields_falsy bodyGood"
    by (simp add: fields_falsy_def fields_missing_def bodyGood_def)
  have sl: "slots ?inp
            = [(''2025-07-01'', ''18:00''), (''2025-07-01'', ''21:00''), (''2025-07-02'', ''18:00'')]"
    by (simp add: slots_def)
  have h5: "\<forall>(d, t) \<in> set (slots ?inp). newDate env0 (d @ ''T'' @ t) \<noteq> None"
    unfolding sl by (simp add: env0_def exampleDate_def)
  have d: "makeRequestWithRetry (axiosDetails env0) (movie_url ''550'') = Inr apiData550"
    by (simp add: makeRequestWithRetry_def env0_def)
  have c: "makeRequestWithRetry (axiosCredits env0) (movie_url ''550'' @ ''/credits'')
           = Inr \<lparr>api_cast = [''Edward Norton'']\<rparr>"
    by (simp add: makeRequestWithRetry_def env0_def)
  have h6: "addShow_movie env0 ''550'' emptyStore
            = Inr (movie550, Movie_create movie550 emptyStore)"
    by (simp add: addShow_movie_def d c movie550_def Movie_findById_def emptyStore_def Let_def)
  have e: "newDate env0 = exampleDate" "title movie550 = ''Fight Club''"
      "showDocs emptyStore = []" "events emptyStore = []"
    by (simp_all add: env0_def movie550_def MovieDetails_def apiData550_def emptyStore_def)
  show ?thesis
    using addShow_one_show_per_slot [OF h1 h2 h3 h4 h5 h6]
    unfolding sl e by simp
qed

section \<open>C9: the movies that \<open>getShows\<close> lists\<close>

lemma Movie_findById_id: "Movie_findById i st = Some m \<Longrightarrow> movie_id m = i"
  unfolding Movie_findById_def by (drule find_Some_id) simp

lemma uniqueMovies_step_new:
  assumes "Movie_findById (movie s) st = Some m" and "movie s \<notin> fst ` set um"
  shows "uniqueMovies_step um (populate_movie st s) = um @ [(movie s, m)]"
  using assms Movie_findById_id [OF assms(1)]
  by (simp add: uniqueMovies_step_def populate_movie_def)

lemma uniqueMovies_step_old:
  assumes "Movie_findById (movie s) st = None \<or> movie s \<in> fst ` set um"
  shows "uniqueMovies_step um (populate_movie st s) = um"
proof (cases "Movie_findById (movie s) st")
  case None
  then show ?thesis by (simp add: uniqueMovies_step_def populate_movie_def)
next
  case (Some m)
  with assms have "movie s \<in> fst ` set um" by simp
  with Some Movie_findById_id [OF Some] show ?thesis
    by (simp add: uniqueMovies_step_def populate_movie_def)
qed

text \<open>
  The loop over the sorted shows appends to \<open>uniqueMovies\<close> one entry for each show \<open>f\<close> of a
  list \<open>fs\<close> of first occurrences.
\<close>

lemma uniqueMovies_fold:
  assumes "sorted (map showDateTime ss)"
  shows "\<exists>fs ext.
      foldl uniqueMovies_step um (map (populate_movie st) ss) = um @ ext
    \<and> list_all2 (\<lambda>f e. Movie_findById (movie f) st = Some (snd e)) fs ext
    \<and> set fs \<subseteq> set ss
    \<and> sorted (map showDateTime fs)
    \<and> distinct (map movie fs)
    \<and> movie ` set fs \<inter> fst ` set um = {}
    \<and> (\<forall>f \<in> set fs. Movie_findById (movie f) st \<noteq> None)
    \<and> (\<forall>f \<in> set fs. \<forall>s \<in> set ss. movie s = movie f \<longrightarrow> showDateTime f \<le> showDateTime s)
    \<and> (\<forall>s \<in> set ss. Movie_findById (movie s) st \<noteq> None
          \<longrightarrow> movie s \<in> fst ` set um \<union> movie ` set fs)"
  using assms
proof (induction ss arbitrary: um)
  case Nil
  have "foldl uniqueMovies_step um (map (populate_movie st) []) = um @ []
    \<and> list_all2 (\<lambda>f e. Movie_findById (movie f) st = Some (snd e)) [] []
    \<and> set [] \<subseteq> set ([] :: Show list)"
    by simp
  then show ?case by (intro exI [of _ "[]"]) simp
next
  case (Cons s ss)
  from Cons.prems have sorted_tl: "sorted (map showDateTime ss)"
    and least: "\<forall>s' \<in> set ss. showDateTime s \<le> showDateTime s'"
    by simp_all
  show ?case
  proof (cases "Movie_findById (movie s) st = None \<or> movie s \<in> fst ` set um")
    case True
    then have step: "uniqueMovies_step um (populate_movie st s) = um"
      by (rule uniqueMovies_step_old)
    from Cons.IH [OF sorted_tl, of um] obtain fs ext where
      ih: "foldl uniqueMovies_step um (map (populate_movie st) ss) = um @ ext"
        "list_all2 (\<lambda>f e. Movie_findById (movie f) st = Some (snd e)) fs ext"
        "set fs \<subseteq> set ss"
        "sorted (map showDateTime fs)"
        "distinct (map movie fs)"
        "movie ` set fs \<inter> fst ` set um = {}"
        "\<forall>f \<in> set fs. Movie_findById (movie f) st \<noteq> None"
        "\<forall>f \<in> set fs. \<forall>s \<in> set ss. movie s = movie f \<longrightarrow> showDateTime f \<le> showDateTime s"
        "\<forall>s \<in> set ss. Movie_findById (movie s) st \<noteq> None
            \<longrightarrow> movie s \<in> fst ` set um \<union> movie ` set fs"
      by blast
    have a: "foldl uniqueMovies_step um (map (populate_movie st) (s # ss)) = um @ ext"
      using ih(1) step by simp
    have b: "set fs \<subseteq> set (s # ss)" using ih(3) by auto
    have other: "\<forall>f \<in> set fs. movie s \<noteq> movie f"
      using True ih(6,7) by force
    have c: "\<forall>f \<in> set fs. \<forall>s' \<in> set (s # ss).
               movie s' = movie f \<longrightarrow> showDateTime f \<le> showDateTime s'"
      using ih(8) other by simp
    have d: "\<forall>s' \<in> set (s # ss). Movie_findById (movie s') st \<noteq> None
               \<longrightarrow> movie s' \<in> fst ` set um \<union> movie ` set fs"
      using ih(9) True by auto
    from a ih(2) b ih(4,5,6,7) c d show ?thesis by blast
  next
    case False
    then obtain m where m: "Movie_findById (movie s) st = Some m"
      and new: "movie s \<notin> fst ` set um"
      by auto
    let ?um = "um @ [(movie s, m)]"
    have step: "uniqueMovies_step um (populate_movie st s) = ?um"
      using m new by (rule uniqueMovies_step_new)
    from Cons.IH [OF sorted_tl, of ?um] obtain fs ext where
      ih: "foldl uniqueMovies_step ?um (map (populate_movie st) ss) = ?um @ ext"
        "list_all2 (\<lambda>f e. Movie_findById (movie f) st = Some (snd e)) fs ext"
        "set fs \<subseteq> set ss"
        "sorted (map showDateTime fs)"
        "distinct (map movie fs)"
        "movie ` set fs \<inter> fst ` set ?um = {}"
        "\<forall>f \<in> set fs. Movie_findById (movie f) st \<noteq> None"
        "\<forall>f \<in> set fs. \<forall>s \<in> set ss. movie s = movie f \<longrightarrow> showDateTime f \<le> showDateTime s"
        "\<forall>s \<in> set ss. Movie_findById (movie s) st \<noteq> None
            \<longrightarrow> movie s \<in> fst ` set ?um \<union> movie ` set fs"
      by blast
    let ?fs = "s # fs" and ?ext = "(movie s, m) # ext"
    have other: "\<forall>f \<in> set fs. movie s \<noteq> movie f"
      using ih(6) by auto
    have a: "foldl uniqueMovies_step um (map (populate_movie st) (s # ss)) = um @ ?ext"
      using ih(1) step by simp
    have b: "list_all2 (\<lambda>f e. Movie_findById (movie f) st = Some (snd e)) ?fs ?ext"
      using ih(2) m by simp
    have c: "set ?fs \<subseteq> set (s # ss)" using ih(3) by auto
    have d: "sorted (map showDateTime ?fs)"
      using ih(3,4) least by auto
    have e: "distinct (map movie ?fs)"
      using ih(5) other by auto
    have f: "movie ` set ?fs \<inter> fst ` set um = {}"
      using ih(6) new by auto
    have g: "\<forall>f \<in> set ?fs. Movie_findById (movie f) st \<noteq> None"
      using ih(7) m by simp
    have h: "\<forall>f \<in> set ?fs. \<forall>s' \<in> set (s # ss).
               movie s' = movie f \<longrightarrow> showDateTime f \<le> showDateTime s'"
      using ih(8) other least by auto
    have i: "\<forall>s' \<in> set (s # ss). Movie_findById (movie s') st \<noteq> None
               \<longrightarrow> movie s' \<in> fst ` set um \<union> movie ` set ?fs"
      using ih(9) by auto
    from a b c d e f g h i show ?thesis by blast
  qed
qed

text \<open>
  C9, as the code has it. \<open>getShows\<close> answers 200 with a list of Movie documents, not of
  shows. There is a list \<open>fs\<close> of stored shows with start time at least \<open>now\<close>, in ascending
  order of start time and of pairwise different movies, such that the response holds, in
  this order, the Movie document of each show of \<open>fs\<close>; each show of \<open>fs\<close> starts no later
  than any stored show of the same movie with start time at least \<open>now\<close> (it is the first
  occurrence); and every stored show with start time at least \<open>now\<close> whose movie reference
  names a stored Movie has its movie in the list. A show whose movie reference names no
  stored Movie adds nothing.
\<close>

theorem getShows_first_occurrences:
  "\<exists>fs. status (getShows now st) = 200 \<and> success (getShows now st)
     \<and> list_all2 (\<lambda>f d. \<exists>m. Movie_findById (movie f) st = Some m \<and> d = MovieDoc m)
          fs (payload (getShows now st))
     \<and> sorted (map showDateTime fs)
     \<and> distinct (map movie fs)
     \<and> (\<forall>f \<in> set fs. f \<in> set (showDocs st) \<and> now \<le> showDateTime f
           \<and> (\<forall>s \<in> set (showDocs st). now \<le> showDateTime s \<and> movie s = movie f
                 \<longrightarrow> showDateTime f \<le> showDateTime s))
     \<and> (\<forall>s \<in> set (showDocs st). now \<le> showDateTime s \<and> Movie_findById (movie s) st \<noteq> None
           \<longrightarrow> movie s \<in> movie ` set fs)"
proof -
  let ?ss = "sort_key showDateTime (filter (\<lambda>s. now \<le> showDateTime s) (showDocs st))"
  have ss: "set ?ss = {s \<in> set (showDocs st). now \<le> showDateTime s}"
    by simp
  have "sorted (map showDateTime ?ss)" by (rule sorted_sort_key)
  from uniqueMovies_fold [OF this, of "[]" st] obtain fs ext where
    r: "foldl uniqueMovies_step [] (map (populate_movie st) ?ss) = ext"
      "list_all2 (\<lambda>f e. Movie_findById (movie f) st = Some (snd e)) fs ext"
      "set fs \<subseteq> set ?ss"
      "sorted (map showDateTime fs)"
      "distinct (map movie fs)"
      "\<forall>f \<in> set fs. \<forall>s \<in> set ?ss. movie s = movie f \<longrightarrow> showDateTime f \<le> showDateTime s"
      "\<forall>s \<in> set ?ss. Movie_findById (movie s) st \<noteq> None \<longrightarrow> movie s \<in> movie ` set fs"
    by auto
  have pay: "payload (getShows now st) = map (\<lambda>(k, m). MovieDoc m) ext"
    using r(1) by (simp add: getShows_def)
  have a: "list_all2 (\<lambda>f d. \<exists>m. Movie_findById (movie f) st = Some m \<and> d = MovieDoc m)
             fs (payload (getShows now st))"
    unfolding pay list_all2_map2
    using r(2) by (rule list_all2_mono) (auto split: prod.splits)
  have b: "\<forall>f \<in> set fs. f \<in> set (showDocs st) \<and> now \<le> showDateTime f
           \<and> (\<forall>s \<in> set (showDocs st). now \<le> showDateTime s \<and> movie s = movie f
                 \<longrightarrow> showDateTime f \<le> showDateTime s)"
    using r(3,6) unfolding ss by blast
  have c: "\<forall>s \<in> set (showDocs st). now \<le> showDateTime s \<and> Movie_findById (movie s) st \<noteq> None
           \<longrightarrow> movie s \<in> movie ` set fs"
    using r(7) unfolding ss by blast
  have d: "status (getShows now st) = 200 \<and> success (getShows now st)"
    by (simp add: getShows_def Let_def)
  from a r(4,5) b c d show ?thesis by blast
qed

lemma catalogue_fields:
  "showDateTime showX = 1000" "movie showX = ''m1''"
  "showDateTime showY = 2000" "movie showY = ''m2''"
  "showDateTime (showAt i m t) = t" "movie (showAt i m t) = m"
  "movie_id (movieNamed i n) = i"
  by (simp_all add: showX_def showY_def showAt_def movieNamed_def)

lemma getShows_catalogue:
  "payload (getShows 900 catalogue)
   = [MovieDoc (movieNamed ''m1'' ''Dune''), MovieDoc (movieNamed ''m2'' ''Heat'')]"
  by (simp add: getShows_def Let_def catalogue_def catalogue_fields sort_key_def
      populate_movie_def Movie_findById_def uniqueMovies_step_def)

lemma listUpcomingShows_spec_catalogue:
  "listUpcomingShows_spec 900 catalogue
   = [\<lparr>theShow = showX, movieOf = Some (movieNamed ''m1'' ''Dune'')\<rparr>,
      \<lparr>theShow = showAt ''W'' ''m9'' 1500, movieOf = None\<rparr>,
      \<lparr>theShow = showY, movieOf = Some (movieNamed ''m2'' ''Heat'')\<rparr>]"
  by (simp add: listUpcomingShows_spec_def catalogue_def catalogue_fields sort_key_def
      populate_movie_def Movie_findById_def)

theorem getShows_first_occurrences_witness:
  "payload (getShows 900 catalogue)
     = [MovieDoc (movieNamed ''m1'' ''Dune''), MovieDoc (movieNamed ''m2'' ''Heat'')]
   \<and> (\<exists>fs. list_all2
              (\<lambda>f d. \<exists>m. Movie_findById (movie f) catalogue = Some m \<and> d = MovieDoc m) fs
              [MovieDoc (movieNamed ''m1'' ''Dune''), MovieDoc (movieNamed ''m2'' ''Heat'')]
          \<and> sorted (map showDateTime fs)
          \<and> distinct (map movie fs)
          \<and> set fs \<subseteq> set (showDocs catalogue))"
proof -
  from getShows_first_occurrences [of 900 catalogue] obtain fs where
    "list_all2 (\<lambda>f d. \<exists>m. Movie_findById (movie f) catalogue = Some m \<and> d = MovieDoc m)
       fs (payload (getShows 900 catalogue))"
    "sorted (map showDateTime fs)" "distinct (map movie fs)"
    "\<forall>f \<in> set fs. f \<in> set (showDocs catalogue)"
    by blast
  then show ?thesis
    unfolding getShows_catalogue by blast
qed

text \<open>
  C9 as the specification words it fails: with the catalogue above and \<open>now = 900\<close> the
  specification's \<open>listUpcomingShows\<close> gives the three shows X, W and Y, and the code gives
  the two movies Dune and Heat.
\<close>

theorem getShows_lists_movies_not_shows:
  "payload (getShows 900 catalogue) \<noteq> map ShowDoc (listUpcomingShows_spec 900 catalogue)
   \<and> length (payload (getShows 900 catalogue)) = 2
   \<and> length (listUpcomingShows_spec 900 catalogue) = 3"
  unfolding getShows_catalogue listUpcomingShows_spec_catalogue by simp

end
